theory Spec2Isabelle
  imports Main
begin

section \<open>Katello client: the distribution actions\<close>

text \<open>
  A shallow embedding of \<^verbatim>\<open>katello/client/core/distribution.py\<close>: the two
  actions \<^verbatim>\<open>List\<close> and \<^verbatim>\<open>Info\<close> of the \<^verbatim>\<open>distribution\<close> command.
  An action declares its options, checks the parsed options with a validator, and its
  \<^verbatim>\<open>run\<close> method calls the remote collaborators and drives a printer. Every call
  to a collaborator and to the printer is recorded, in program order, in a trace, and an
  exception is a value \<open>Inl e\<close> that ends the run.
\<close>

subsection \<open>Python values\<close>

text \<open>
  The values that reach \<^verbatim>\<open>run\<close>: an option is a string or \<^verbatim>\<open>None\<close>
  (optparse), the \<^verbatim>\<open>id\<close> field of a repository record is a scalar.
\<close>

datatype pyval = PNone | PStr string | PInt int

text \<open>Python truth value: \<^verbatim>\<open>None\<close>, the empty string and zero are falsy.\<close>

fun truthy :: "pyval \<Rightarrow> bool" where
  "truthy PNone = False"
| "truthy (PStr s) = (s \<noteq> [])"
| "truthy (PInt i) = (i \<noteq> 0)"

fun digit_char :: "nat \<Rightarrow> char" where
  "digit_char n = char_of (48 + n)"

fun str_nat :: "nat \<Rightarrow> string" where
  "str_nat n = (if n < 10 then [digit_char n] else str_nat (n div 10) @ [digit_char (n mod 10)])"

text \<open>Python's \<^verbatim>\<open>str\<close> on a scalar.\<close>

fun py_str :: "pyval \<Rightarrow> string" where
  "py_str PNone = ''None''"
| "py_str (PStr s) = s"
| "py_str (PInt i) = (if i < 0 then CHR ''-'' # str_nat (nat (- i)) else str_nat (nat i))"

text \<open>
  \<^verbatim>\<open>fmt % arg\<close> for a format with one \<^verbatim>\<open>%s\<close> directive: the first
  \<^verbatim>\<open>%s\<close> is replaced by \<^verbatim>\<open>str(arg)\<close>.
\<close>

fun percent_s :: "string \<Rightarrow> string \<Rightarrow> string" where
  "percent_s [] a = []"
| "percent_s [c] a = [c]"
| "percent_s (c # d # cs) a =
     (if c = CHR ''%'' \<and> d = CHR ''s'' then a @ cs else c # percent_s (d # cs) a)"

text \<open>
  The translation function \<^verbatim>\<open>_\<close> (gettext) with no catalogue installed returns its
  argument.
\<close>

definition gettext :: "string \<Rightarrow> string" where
  "gettext s = s"

subsection \<open>Options and the parser\<close>

text \<open>
  Modelled from the spec: the option parser (optparse behind
  \<^verbatim>\<open>katello.client.cli.base\<close>) and the helpers \<^verbatim>\<open>opt_parser_add_org\<close>,
  \<^verbatim>\<open>opt_parser_add_environment\<close> and \<^verbatim>\<open>opt_parser_add_product\<close> are not part
  of the source file. An option has a flag name, a destination key and an optional
  default; the parsed options map a destination key to a string value, or the key is
  absent. The destination keys of the three helpers are the ones \<^verbatim>\<open>run\<close> reads.
\<close>

record opt_decl =
  flag :: string
  dest :: string
  default_value :: "string option"

type_synonym parsed_options = "string \<rightharpoonup> string"

definition add_option :: "string \<Rightarrow> string \<Rightarrow> opt_decl" where
  "add_option f d = \<lparr>flag = f, dest = d, default_value = None\<rparr>"

definition opt_parser_add_org :: opt_decl where
  "opt_parser_add_org = \<lparr>flag = ''--org'', dest = ''org'', default_value = None\<rparr>"

definition opt_parser_add_environment :: "string option \<Rightarrow> opt_decl" where
  "opt_parser_add_environment d =
     \<lparr>flag = ''--environment'', dest = ''environment'', default_value = d\<rparr>"

definition opt_parser_add_product :: opt_decl where
  "opt_parser_add_product = \<lparr>flag = ''--product'', dest = ''product'', default_value = None\<rparr>"

text \<open>\<^verbatim>\<open>List.setup_parser\<close> and \<^verbatim>\<open>Info.setup_parser\<close>: the declared options, in order.\<close>

definition List_setup_parser :: "opt_decl list" where
  "List_setup_parser =
     [add_option ''--repo_id'' ''repo_id'',
      add_option ''--repo'' ''repo'',
      opt_parser_add_org,
      opt_parser_add_environment (Some (gettext ''Library'')),
      opt_parser_add_product]"

definition Info_setup_parser :: "opt_decl list" where
  "Info_setup_parser =
     [add_option ''--repo_id'' ''repo_id'',
      add_option ''--id'' ''id'']"

text \<open>
  Parsing: \<open>given\<close> maps the destination key of every flag on the command line to its
  value. A declared option that was not given takes its default, or stays absent.
\<close>

fun parse :: "opt_decl list \<Rightarrow> (string \<rightharpoonup> string) \<Rightarrow> parsed_options" where
  "parse [] given = Map.empty"
| "parse (d # ds) given =
     (let rest = parse ds given in
      case given (dest d) of
        Some v \<Rightarrow> rest(dest d \<mapsto> v)
      | None \<Rightarrow> (case default_value d of
                   Some v \<Rightarrow> rest(dest d \<mapsto> v)
                 | None \<Rightarrow> rest))"

text \<open>\<^verbatim>\<open>self.get_option(key)\<close>: the parsed value, or \<^verbatim>\<open>None\<close>.\<close>

definition get_option :: "parsed_options \<Rightarrow> string \<Rightarrow> pyval" where
  "get_option opts k = (case opts k of None \<Rightarrow> PNone | Some v \<Rightarrow> PStr v)"

subsection \<open>The validator\<close>

text \<open>
  Modelled from the spec: the validator class is not part of the source file. It holds
  the parsed options and collects the destination keys found missing.
  \<^verbatim>\<open>exists(key)\<close> tells whether the key has a value in the parsed options;
  \<^verbatim>\<open>require(keys)\<close> fails unless every key has a present, non-empty value, and
  names the missing keys.
\<close>

record validator =
  v_opts :: parsed_options
  opt_errors :: "string list"

definition new_validator :: "parsed_options \<Rightarrow> validator" where
  "new_validator opts = \<lparr>v_opts = opts, opt_errors = []\<rparr>"

definition exists :: "validator \<Rightarrow> string \<Rightarrow> bool" where
  "exists v k = (v_opts v k \<noteq> None)"

definition has_value :: "parsed_options \<Rightarrow> string \<Rightarrow> bool" where
  "has_value opts k = (case opts k of None \<Rightarrow> False | Some s \<Rightarrow> s \<noteq> [])"

definition require :: "validator \<Rightarrow> string list \<Rightarrow> validator" where
  "require v ks = v\<lparr>opt_errors := opt_errors v @ filter (\<lambda>k. \<not> has_value (v_opts v) k) ks\<rparr>"

text \<open>\<^verbatim>\<open>List.check_options\<close> and \<^verbatim>\<open>Info.check_options\<close>.\<close>

definition List_check_options :: "validator \<Rightarrow> validator" where
  "List_check_options v =
     (if \<not> exists v ''repo_id'' then require v [''repo'', ''org'', ''product''] else v)"

definition Info_check_options :: "validator \<Rightarrow> validator" where
  "Info_check_options v = require v [''repo_id'', ''id'']"

subsection \<open>Printer, collaborators and the trace\<close>

text \<open>
  Modelled from the spec: the printer (\<^verbatim>\<open>katello.client.utils.printer\<close>) is not
  part of the source file. A column has a key, a multiline flag and an optional display
  strategy; \<^verbatim>\<open>add_column(key)\<close> alone declares a single-line column shown at
  every verbosity. The only strategy the source names is \<^verbatim>\<open>VerboseStrategy\<close>.
\<close>

datatype strategy = VerboseStrategy

record column =
  col_key :: string
  multiline :: bool
  show_with :: "strategy option"

definition plain_column :: "string \<Rightarrow> column" where
  "plain_column k = \<lparr>col_key = k, multiline = False, show_with = None\<rparr>"

text \<open>
  A repository record is a dictionary of scalars. A distribution record is a dictionary
  whose fields are scalars or lists of strings; \<^verbatim>\<open>run\<close> never looks inside one.
\<close>

type_synonym repo_record = "(string \<times> pyval) list"

datatype field = Single pyval | Lines "string list"

type_synonym dist_record = "(string \<times> field) list"

text \<open>Exceptions: what a collaborator raises, and the \<^verbatim>\<open>KeyError\<close> of a dictionary read.\<close>

datatype error =
    ValidationError "string list"
  | NotFound
  | ServerError string
  | KeyError string

text \<open>
  The external collaborators, as the mocks of a test: \<^verbatim>\<open>get_repo\<close>
  (\<^verbatim>\<open>katello.client.api.utils\<close>) and the two methods of \<^verbatim>\<open>DistributionAPI\<close>
  that the actions call. Each returns a result or raises.
\<close>

record collaborators =
  get_repo :: "pyval \<Rightarrow> pyval \<Rightarrow> pyval \<Rightarrow> pyval \<Rightarrow> error + repo_record"
  distributions_by_repo :: "pyval \<Rightarrow> error + dist_record list"
  distribution :: "pyval \<Rightarrow> pyval \<Rightarrow> error + dist_record"

text \<open>Everything \<^verbatim>\<open>run\<close> does to the outside, in program order.\<close>

datatype event =
    AddColumn column
  | SetHeader string
  | PrintItems "dist_record list"
  | PrintItem dist_record
  | CallGetRepo pyval pyval pyval pyval
  | CallDistributionsByRepo pyval
  | CallDistribution pyval pyval

text \<open>
  A computation is the trace it leaves and either the exception that ended it or its
  value. \<open>and_then\<close> sequences two statements: an exception in the first skips the
  second.
\<close>

type_synonym 'a comp = "event list \<times> (error + 'a)"

definition ret :: "'a \<Rightarrow> 'a comp" where
  "ret x = ([], Inr x)"

definition emit :: "event \<Rightarrow> unit comp" where
  "emit e = ([e], Inr ())"

definition and_then :: "'a comp \<Rightarrow> ('a \<Rightarrow> 'b comp) \<Rightarrow> 'b comp" where
  "and_then m f =
     (case m of
        (t, Inl e) \<Rightarrow> (t, Inl e)
      | (t, Inr x) \<Rightarrow> (case f x of (t', r) \<Rightarrow> (t @ t', r)))"

text \<open>A call of a collaborator is recorded, then returns or raises.\<close>

definition call :: "event \<Rightarrow> error + 'a \<Rightarrow> 'a comp" where
  "call e r = ([e], r)"

text \<open>\<^verbatim>\<open>d[key]\<close> on a dictionary: the first binding of the key, or \<^verbatim>\<open>KeyError\<close>.\<close>

definition getitem :: "repo_record \<Rightarrow> string \<Rightarrow> pyval comp" where
  "getitem d k = (case map_of d k of None \<Rightarrow> ([], Inl (KeyError k)) | Some v \<Rightarrow> ret v)"

text \<open>\<^verbatim>\<open>os.EX_OK\<close>.\<close>

definition EX_OK :: int where
  "EX_OK = 0"

subsection \<open>The actions\<close>

text \<open>
  \<^verbatim>\<open>List.run\<close>, statement by statement: the five options are read, the three
  columns are declared, the repository is resolved by name when \<^verbatim>\<open>repo_id\<close> is
  falsy, the header is set, the distributions are fetched and printed.
\<close>

definition List_run :: "collaborators \<Rightarrow> parsed_options \<Rightarrow> int comp" where
  "List_run c opts =
     (let repoId = get_option opts ''repo_id'';
          repoName = get_option opts ''repo'';
          orgName = get_option opts ''org'';
          envName = get_option opts ''environment'';
          prodName = get_option opts ''product''
      in
      and_then (emit (AddColumn (plain_column ''id''))) (\<lambda>_.
      and_then (emit (AddColumn (plain_column ''description''))) (\<lambda>_.
      and_then (emit (AddColumn
          \<lparr>col_key = ''files'', multiline = True, show_with = Some VerboseStrategy\<rparr>)) (\<lambda>_.
      and_then
        (if \<not> truthy repoId then
           and_then (call (CallGetRepo orgName prodName repoName envName)
                       (get_repo c orgName prodName repoName envName)) (\<lambda>repo.
           getitem repo ''id'')
         else ret repoId) (\<lambda>repoId.
      and_then (emit (SetHeader
          (percent_s (gettext ''Distribution List For Repo %s'') (py_str repoId)))) (\<lambda>_.
      and_then (call (CallDistributionsByRepo repoId) (distributions_by_repo c repoId))
        (\<lambda>distributions.
      and_then (emit (PrintItems distributions)) (\<lambda>_.
      ret EX_OK))))))))"

text \<open>\<^verbatim>\<open>Info.run\<close>: the distribution is fetched first, then the printer is set up.\<close>

definition Info_run :: "collaborators \<Rightarrow> parsed_options \<Rightarrow> int comp" where
  "Info_run c opts =
     (let repoId = get_option opts ''repo_id'';
          dist_id = get_option opts ''id''
      in
      and_then (call (CallDistribution repoId dist_id) (distribution c repoId dist_id)) (\<lambda>data.
      and_then (emit (AddColumn (plain_column ''id''))) (\<lambda>_.
      and_then (emit (AddColumn (plain_column ''description''))) (\<lambda>_.
      and_then (emit (AddColumn (plain_column ''family''))) (\<lambda>_.
      and_then (emit (AddColumn (plain_column ''variant''))) (\<lambda>_.
      and_then (emit (AddColumn (plain_column ''version''))) (\<lambda>_.
      and_then (emit (AddColumn
          \<lparr>col_key = ''files'', multiline = True, show_with = Some VerboseStrategy\<rparr>)) (\<lambda>_.
      and_then (emit (SetHeader (gettext ''Distribution Information''))) (\<lambda>_.
      and_then (emit (PrintItem data)) (\<lambda>_.
      ret EX_OK))))))))))"

subsection \<open>One invocation\<close>

text \<open>
  Modelled from the spec: the driver of an action (\<^verbatim>\<open>BaseAction\<close> in
  \<^verbatim>\<open>katello.client.core.base\<close>) is not part of the source file. An invocation
  declares the options, parses the command line, checks the options, and on a
  validation failure reports the missing fields and exits non-success without calling
  \<^verbatim>\<open>run\<close>; otherwise it is what \<^verbatim>\<open>run\<close> does.
\<close>

datatype action = List | Info

fun setup_parser :: "action \<Rightarrow> opt_decl list" where
  "setup_parser List = List_setup_parser"
| "setup_parser Info = Info_setup_parser"

fun check_options :: "action \<Rightarrow> validator \<Rightarrow> validator" where
  "check_options List v = List_check_options v"
| "check_options Info v = Info_check_options v"

fun run :: "action \<Rightarrow> collaborators \<Rightarrow> parsed_options \<Rightarrow> int comp" where
  "run List c opts = List_run c opts"
| "run Info c opts = Info_run c opts"

text \<open>Validation accepts the options when checking them collects no error.\<close>

definition accepts :: "action \<Rightarrow> parsed_options \<Rightarrow> bool" where
  "accepts a opts = (opt_errors (check_options a (new_validator opts)) = [])"

definition invoke :: "action \<Rightarrow> collaborators \<Rightarrow> (string \<rightharpoonup> string) \<Rightarrow> int comp" where
  "invoke a c given =
     (let opts = parse (setup_parser a) given;
          v = check_options a (new_validator opts)
      in if opt_errors v \<noteq> [] then ([], Inl (ValidationError (opt_errors v)))
         else run a c opts)"

text \<open>An invocation succeeds when it returns the success status.\<close>

definition succeeded :: "int comp \<Rightarrow> bool" where
  "succeeded r = (snd r = Inr EX_OK)"

subsection \<open>Reading a trace\<close>

fun is_api_call :: "event \<Rightarrow> bool" where
  "is_api_call (CallGetRepo _ _ _ _) = True"
| "is_api_call (CallDistributionsByRepo _) = True"
| "is_api_call (CallDistribution _ _) = True"
| "is_api_call _ = False"

fun is_get_repo :: "event \<Rightarrow> bool" where
  "is_get_repo (CallGetRepo _ _ _ _) = True"
| "is_get_repo _ = False"

fun is_dist_call :: "event \<Rightarrow> bool" where
  "is_dist_call (CallDistributionsByRepo _) = True"
| "is_dist_call (CallDistribution _ _) = True"
| "is_dist_call _ = False"

fun is_print :: "event \<Rightarrow> bool" where
  "is_print (PrintItems _) = True"
| "is_print (PrintItem _) = True"
| "is_print _ = False"

fun is_add_column :: "event \<Rightarrow> bool" where
  "is_add_column (AddColumn _) = True"
| "is_add_column _ = False"

fun columns_of :: "event list \<Rightarrow> column list" where
  "columns_of [] = []"
| "columns_of (AddColumn col # es) = col # columns_of es"
| "columns_of (_ # es) = columns_of es"

fun headers_of :: "event list \<Rightarrow> string list" where
  "headers_of [] = []"
| "headers_of (SetHeader h # es) = h # headers_of es"
| "headers_of (_ # es) = headers_of es"

subsection \<open>The printer configuration the specification describes\<close>

text \<open>
  What the specification says the printer is given: for \<^verbatim>\<open>list\<close> the columns
  \<^verbatim>\<open>id\<close>, \<^verbatim>\<open>description\<close> and the multiline, verbose-only \<^verbatim>\<open>files\<close>
  under the header \<^verbatim>\<open>Distribution List For Repo <repoId>\<close>; for \<^verbatim>\<open>info\<close> the
  columns \<^verbatim>\<open>id\<close>, \<^verbatim>\<open>description\<close>, \<^verbatim>\<open>family\<close>, \<^verbatim>\<open>variant\<close>,
  \<^verbatim>\<open>version\<close> and the same \<^verbatim>\<open>files\<close> column. These follow the words of the
  specification and are compared below with what \<^verbatim>\<open>run\<close> does.
\<close>

definition spec_List_columns :: "column list" where
  "spec_List_columns =
     [plain_column ''id'', plain_column ''description'',
      \<lparr>col_key = ''files'', multiline = True, show_with = Some VerboseStrategy\<rparr>]"

definition spec_Info_columns :: "column list" where
  "spec_Info_columns =
     [plain_column ''id'', plain_column ''description'',
      plain_column ''family'', plain_column ''variant'', plain_column ''version'',
      \<lparr>col_key = ''files'', multiline = True, show_with = Some VerboseStrategy\<rparr>]"

definition spec_List_header :: "pyval \<Rightarrow> string" where
  "spec_List_header rid = ''Distribution List For Repo '' @ py_str rid"

subsection \<open>Sample collaborators\<close>

text \<open>
  A server on which every repository resolves to the record with \<^verbatim>\<open>id\<close> 7 and
  every call succeeds, and a server on which every call raises.
\<close>

definition sample_server :: collaborators where
  "sample_server =
     \<lparr>get_repo = (\<lambda>org prod repo env. Inr [(''id'', PInt 7), (''name'', repo)]),
      distributions_by_repo = (\<lambda>rid. Inr [[(''id'', Single (PStr ''ks1'')),
                                            (''description'', Single (PStr ''d1'')),
                                            (''files'', Lines [''f1''])]]),
      distribution = (\<lambda>rid did. Inr [(''id'', Single did),
                                      (''description'', Single (PStr ''d1'')),
                                      (''family'', Single (PStr ''rhel'')),
                                      (''variant'', Single (PStr [])),
                                      (''version'', Single (PStr ''7'')),
                                      (''files'', Lines [''f1'', ''f2''])])\<rparr>"

definition failing_server :: collaborators where
  "failing_server =
     \<lparr>get_repo = (\<lambda>org prod repo env. Inl NotFound),
      distributions_by_repo = (\<lambda>rid. Inl (ServerError ''503'')),
      distribution = (\<lambda>rid did. Inl NotFound)\<rparr>"

section \<open>Properties\<close>

subsection \<open>What the runs compute\<close>

lemma percent_header:
  "percent_s (gettext ''Distribution List For Repo %s'') a = ''Distribution List For Repo '' @ a"
  by (simp add: gettext_def)

lemma py_str_7: "py_str (PInt 7) = ''7''"
  by code_simp

lemmas comp_defs = and_then_def emit_def ret_def call_def getitem_def

lemma Info_run_eq:
  "Info_run c opts =
     (case distribution c (get_option opts ''repo_id'') (get_option opts ''id'') of
        Inl e \<Rightarrow> ([CallDistribution (get_option opts ''repo_id'') (get_option opts ''id'')], Inl e)
      | Inr data \<Rightarrow>
          (CallDistribution (get_option opts ''repo_id'') (get_option opts ''id'') #
             map AddColumn spec_Info_columns @
             [SetHeader ''Distribution Information'', PrintItem data], Inr EX_OK))"
  by (simp add: Info_run_def spec_Info_columns_def comp_defs gettext_def Let_def
      split: sum.split)

lemma List_run_direct:
  assumes "truthy (get_option opts ''repo_id'')"
  shows "List_run c opts =
     (case distributions_by_repo c (get_option opts ''repo_id'') of
        Inl e \<Rightarrow> (map AddColumn spec_List_columns @
                   [SetHeader (spec_List_header (get_option opts ''repo_id'')),
                    CallDistributionsByRepo (get_option opts ''repo_id'')], Inl e)
      | Inr ds \<Rightarrow> (map AddColumn spec_List_columns @
                   [SetHeader (spec_List_header (get_option opts ''repo_id'')),
                    CallDistributionsByRepo (get_option opts ''repo_id''),
                    PrintItems ds], Inr EX_OK))"
  using assms
  by (simp add: List_run_def spec_List_columns_def spec_List_header_def comp_defs
        percent_header Let_def split: sum.split)

lemma List_run_resolve:
  assumes "\<not> truthy (get_option opts ''repo_id'')"
  shows "List_run c opts =
     (case get_repo c (get_option opts ''org'') (get_option opts ''product'')
             (get_option opts ''repo'') (get_option opts ''environment'') of
        Inl e \<Rightarrow> (map AddColumn spec_List_columns @
                   [CallGetRepo (get_option opts ''org'') (get_option opts ''product'')
                      (get_option opts ''repo'') (get_option opts ''environment'')], Inl e)
      | Inr r \<Rightarrow>
         (case map_of r ''id'' of
            None \<Rightarrow> (map AddColumn spec_List_columns @
                   [CallGetRepo (get_option opts ''org'') (get_option opts ''product'')
                      (get_option opts ''repo'') (get_option opts ''environment'')],
                     Inl (KeyError ''id''))
          | Some v \<Rightarrow>
             (case distributions_by_repo c v of
                Inl e \<Rightarrow> (map AddColumn spec_List_columns @
                   [CallGetRepo (get_option opts ''org'') (get_option opts ''product'')
                      (get_option opts ''repo'') (get_option opts ''environment''),
                    SetHeader (spec_List_header v), CallDistributionsByRepo v], Inl e)
              | Inr ds \<Rightarrow> (map AddColumn spec_List_columns @
                   [CallGetRepo (get_option opts ''org'') (get_option opts ''product'')
                      (get_option opts ''repo'') (get_option opts ''environment''),
                    SetHeader (spec_List_header v), CallDistributionsByRepo v,
                    PrintItems ds], Inr EX_OK))))"
  using assms
  by (simp add: List_run_def spec_List_columns_def spec_List_header_def comp_defs
        percent_header Let_def split: sum.split option.split)

lemma parse_List:
  "parse List_setup_parser given k =
     (if k = ''environment'' then (case given k of None \<Rightarrow> Some ''Library'' | Some v \<Rightarrow> Some v)
      else if k \<in> {''repo_id'', ''repo'', ''org'', ''product''} then given k else None)"
  by (simp add: List_setup_parser_def add_option_def opt_parser_add_org_def
        opt_parser_add_environment_def opt_parser_add_product_def gettext_def Let_def
      split: option.split)

lemma parse_Info:
  "parse Info_setup_parser given k = (if k \<in> {''repo_id'', ''id''} then given k else None)"
  by (simp add: Info_setup_parser_def add_option_def Let_def split: option.split)

lemma accepts_List:
  "accepts List opts \<longleftrightarrow>
     opts ''repo_id'' \<noteq> None \<or>
     (has_value opts ''repo'' \<and> has_value opts ''org'' \<and> has_value opts ''product'')"
  by (auto simp: accepts_def List_check_options_def require_def new_validator_def exists_def)

lemma accepts_Info:
  "accepts Info opts \<longleftrightarrow> has_value opts ''repo_id'' \<and> has_value opts ''id''"
  by (auto simp: accepts_def Info_check_options_def require_def new_validator_def)

lemma invoke_eq:
  "invoke a c given =
     (if accepts a (parse (setup_parser a) given) then run a c (parse (setup_parser a) given)
      else ([], Inl (ValidationError
              (opt_errors (check_options a (new_validator (parse (setup_parser a) given)))))))"
  by (simp add: invoke_def accepts_def Let_def)

subsection \<open>Validation\<close>

text \<open>
  C1. The validation of \<^verbatim>\<open>List\<close> accepts the parsed options exactly when
  \<^verbatim>\<open>repo_id\<close> exists or \<^verbatim>\<open>repo\<close>, \<^verbatim>\<open>org\<close> and \<^verbatim>\<open>product\<close> are all
  present; when \<^verbatim>\<open>repo_id\<close> exists the validator is left as it was, so nothing is
  required of the other three.
\<close>

theorem List_check_options_accepts:
  "(accepts List opts \<longleftrightarrow>
      exists (new_validator opts) ''repo_id'' \<or>
      (has_value opts ''repo'' \<and> has_value opts ''org'' \<and> has_value opts ''product''))
   \<and> (exists (new_validator opts) ''repo_id'' \<longrightarrow>
        check_options List (new_validator opts) = new_validator opts)"
  by (auto simp: accepts_def List_check_options_def require_def new_validator_def exists_def)

theorem List_check_options_accepts_witness:
  "exists (new_validator [''repo_id'' \<mapsto> ''42'']) ''repo_id''
   \<and> accepts List [''repo_id'' \<mapsto> ''42'']
   \<and> check_options List (new_validator [''repo_id'' \<mapsto> ''42''])
       = new_validator [''repo_id'' \<mapsto> ''42'']"
proof -
  have h: "exists (new_validator [''repo_id'' \<mapsto> ''42'']) ''repo_id''"
    by (simp add: exists_def new_validator_def)
  with List_check_options_accepts [of "[''repo_id'' \<mapsto> ''42'']"] show ?thesis
    by blast
qed

text \<open>
  C2. The validation of \<^verbatim>\<open>Info\<close> accepts the parsed options exactly when both
  \<^verbatim>\<open>repo_id\<close> and \<^verbatim>\<open>id\<close> are present. When \<^verbatim>\<open>id\<close> is missing the
  validation fails with an error that names \<^verbatim>\<open>id\<close>, the invocation does not
  succeed, and its trace is empty: \<^verbatim>\<open>self.api.distribution\<close> is never called.
\<close>

theorem Info_check_options_requires:
  "(accepts Info opts \<longleftrightarrow> has_value opts ''repo_id'' \<and> has_value opts ''id'')
   \<and> (\<not> has_value (parse (setup_parser Info) given) ''id'' \<longrightarrow>
        \<not> accepts Info (parse (setup_parser Info) given)
        \<and> fst (invoke Info c given) = []
        \<and> \<not> succeeded (invoke Info c given)
        \<and> (\<exists>ks. snd (invoke Info c given) = Inl (ValidationError ks) \<and> ''id'' \<in> set ks))"
  by (auto simp: accepts_Info invoke_eq succeeded_def Info_check_options_def require_def
        new_validator_def)

theorem Info_check_options_requires_witness:
  "\<not> has_value (parse (setup_parser Info) [''repo_id'' \<mapsto> ''7'']) ''id''
   \<and> \<not> accepts Info (parse (setup_parser Info) [''repo_id'' \<mapsto> ''7''])
   \<and> fst (invoke Info sample_server [''repo_id'' \<mapsto> ''7'']) = []
   \<and> \<not> succeeded (invoke Info sample_server [''repo_id'' \<mapsto> ''7''])"
proof -
  have h: "\<not> has_value (parse (setup_parser Info) [''repo_id'' \<mapsto> ''7'']) ''id''"
    by (simp add: has_value_def parse_Info)
  with Info_check_options_requires
         [of "[''repo_id'' \<mapsto> ''7'']" "[''repo_id'' \<mapsto> ''7'']" sample_server]
  show ?thesis by blast
qed

text \<open>
  C3. For both actions and every command line: when validation fails, no call reaches a
  collaborator and the invocation does not succeed; and whenever the trace of an
  invocation holds a call of a collaborator, validation has accepted the options.
\<close>

theorem validation_precedes_calls:
  "(\<not> accepts a (parse (setup_parser a) given) \<longrightarrow>
      filter is_api_call (fst (invoke a c given)) = [] \<and> \<not> succeeded (invoke a c given))
   \<and> ((\<exists>e \<in> set (fst (invoke a c given)). is_api_call e) \<longrightarrow>
        accepts a (parse (setup_parser a) given))"
  by (auto simp: invoke_eq succeeded_def)

theorem validation_precedes_calls_witness:
  "\<not> accepts List (parse (setup_parser List) [''repo'' \<mapsto> ''fedora''])
   \<and> filter is_api_call (fst (invoke List sample_server [''repo'' \<mapsto> ''fedora''])) = []
   \<and> \<not> succeeded (invoke List sample_server [''repo'' \<mapsto> ''fedora''])
   \<and> CallDistribution (PStr ''7'') (PStr ''ks1'')
        \<in> set (fst (invoke Info sample_server [''repo_id'' \<mapsto> ''7'', ''id'' \<mapsto> ''ks1'']))
   \<and> accepts Info (parse (setup_parser Info) [''repo_id'' \<mapsto> ''7'', ''id'' \<mapsto> ''ks1''])"
proof -
  have h1: "\<not> accepts List (parse (setup_parser List) [''repo'' \<mapsto> ''fedora''])"
    by (simp add: accepts_List parse_List has_value_def)
  have h2: "CallDistribution (PStr ''7'') (PStr ''ks1'')
        \<in> set (fst (invoke Info sample_server [''repo_id'' \<mapsto> ''7'', ''id'' \<mapsto> ''ks1'']))"
    by (simp add: invoke_eq accepts_Info parse_Info has_value_def Info_run_eq get_option_def
          sample_server_def)
  then have h3: "\<exists>e \<in> set (fst (invoke Info sample_server [''repo_id'' \<mapsto> ''7'', ''id'' \<mapsto> ''ks1''])).
                   is_api_call e"
    by (rule bexI [rotated]) simp
  from h1 validation_precedes_calls [of List "[''repo'' \<mapsto> ''fedora'']" sample_server]
  have "filter is_api_call (fst (invoke List sample_server [''repo'' \<mapsto> ''fedora''])) = []
        \<and> \<not> succeeded (invoke List sample_server [''repo'' \<mapsto> ''fedora''])"
    by blast
  moreover from h3
    validation_precedes_calls [of Info "[''repo_id'' \<mapsto> ''7'', ''id'' \<mapsto> ''ks1'']" sample_server]
  have "accepts Info (parse (setup_parser Info) [''repo_id'' \<mapsto> ''7'', ''id'' \<mapsto> ''ks1''])"
    by blast
  ultimately show ?thesis using h1 h2 by blast
qed

subsection \<open>Resolving the repository\<close>

text \<open>
  C4, as amended. When \<^verbatim>\<open>repo_id\<close> is supplied with a non-empty value,
  \<^verbatim>\<open>List.run\<close> never calls \<^verbatim>\<open>get_repo\<close>: its only call of a collaborator is
  \<^verbatim>\<open>distributions_by_repo\<close> with that value, and the header carries that value.
\<close>

theorem List_run_uses_repo_id:
  assumes "opts ''repo_id'' = Some v" and "v \<noteq> []"
  shows "filter is_get_repo (fst (List_run c opts)) = []
         \<and> filter is_api_call (fst (List_run c opts)) = [CallDistributionsByRepo (PStr v)]
         \<and> headers_of (fst (List_run c opts)) = [''Distribution List For Repo '' @ v]"
  using assms
  by (simp add: List_run_direct get_option_def spec_List_columns_def spec_List_header_def
      split: sum.split)

theorem List_run_uses_repo_id_witness:
  "[''repo_id'' \<mapsto> ''42''] ''repo_id'' = Some ''42'' \<and> ''42'' \<noteq> []
   \<and> filter is_get_repo (fst (List_run sample_server [''repo_id'' \<mapsto> ''42''])) = []
   \<and> filter is_api_call (fst (List_run sample_server [''repo_id'' \<mapsto> ''42'']))
       = [CallDistributionsByRepo (PStr ''42'')]
   \<and> headers_of (fst (List_run sample_server [''repo_id'' \<mapsto> ''42'']))
       = [''Distribution List For Repo 42'']"
proof -
  have h1: "[''repo_id'' \<mapsto> ''42''] ''repo_id'' = Some ''42''" by simp
  have h2: "''42'' \<noteq> []" by simp
  from List_run_uses_repo_id [of "[''repo_id'' \<mapsto> ''42'']" "''42''" sample_server, OF h1 h2] h1 h2
  show ?thesis by simp
qed

text \<open>
  The claim C4 as first stated speaks of every supplied \<^verbatim>\<open>repo_id\<close>. It fails for
  \<^verbatim>\<open>--repo_id ""\<close>: the empty string is falsy, so \<^verbatim>\<open>if not repoId\<close> takes the
  resolution branch and \<^verbatim>\<open>get_repo\<close> is called, and the identifier used is the one
  resolved by name.
\<close>

theorem List_run_empty_repo_id_resolves:
  "[''repo_id'' \<mapsto> [], ''repo'' \<mapsto> ''fedora'', ''org'' \<mapsto> ''ACME'', ''product'' \<mapsto> ''OS'']
      ''repo_id'' = Some []
   \<and> filter is_get_repo (fst (invoke List sample_server
        [''repo_id'' \<mapsto> [], ''repo'' \<mapsto> ''fedora'', ''org'' \<mapsto> ''ACME'', ''product'' \<mapsto> ''OS'']))
     = [CallGetRepo (PStr ''ACME'') (PStr ''OS'') (PStr ''fedora'') (PStr ''Library'')]
   \<and> filter is_api_call (fst (invoke List sample_server
        [''repo_id'' \<mapsto> [], ''repo'' \<mapsto> ''fedora'', ''org'' \<mapsto> ''ACME'', ''product'' \<mapsto> ''OS'']))
     = [CallGetRepo (PStr ''ACME'') (PStr ''OS'') (PStr ''fedora'') (PStr ''Library''),
        CallDistributionsByRepo (PInt 7)]"
  by (simp add: invoke_eq accepts_List parse_List List_run_resolve get_option_def
        sample_server_def spec_List_columns_def)

text \<open>
  C6. On a command line without \<^verbatim>\<open>--repo_id\<close> and without \<^verbatim>\<open>--environment\<close>,
  \<^verbatim>\<open>List.run\<close> calls \<^verbatim>\<open>get_repo\<close> once, with the given organisation, product
  and repository name and with the environment \<^verbatim>\<open>Library\<close>; when that call returns
  a record with an \<^verbatim>\<open>id\<close> field, the value of the field is the identifier passed to
  \<^verbatim>\<open>distributions_by_repo\<close> and shown in the header. With \<^verbatim>\<open>repo\<close>,
  \<^verbatim>\<open>org\<close> and \<^verbatim>\<open>product\<close> present, the invocation is that run.
\<close>

theorem List_default_environment:
  assumes "given ''repo_id'' = None" and "given ''environment'' = None"
  shows "filter is_get_repo (fst (List_run c (parse (setup_parser List) given)))
           = [CallGetRepo (get_option given ''org'') (get_option given ''product'')
                (get_option given ''repo'') (PStr ''Library'')]
         \<and> (get_repo c (get_option given ''org'') (get_option given ''product'')
                (get_option given ''repo'') (PStr ''Library'') = Inr repo
            \<and> map_of repo ''id'' = Some v \<longrightarrow>
              filter is_api_call (fst (List_run c (parse (setup_parser List) given)))
                = [CallGetRepo (get_option given ''org'') (get_option given ''product'')
                     (get_option given ''repo'') (PStr ''Library''),
                   CallDistributionsByRepo v]
              \<and> headers_of (fst (List_run c (parse (setup_parser List) given)))
                = [spec_List_header v])
         \<and> (has_value given ''repo'' \<and> has_value given ''org'' \<and> has_value given ''product''
              \<longrightarrow> invoke List c given = List_run c (parse (setup_parser List) given))"
proof -
  let ?opts = "parse List_setup_parser given"
  have falsy: "\<not> truthy (get_option ?opts ''repo_id'')"
    using assms by (simp add: get_option_def parse_List)
  have env: "get_option ?opts ''environment'' = PStr ''Library''"
    using assms by (simp add: get_option_def parse_List)
  have others: "get_option ?opts ''org'' = get_option given ''org''"
    "get_option ?opts ''product'' = get_option given ''product''"
    "get_option ?opts ''repo'' = get_option given ''repo''"
    by (simp_all add: get_option_def parse_List)
  have hv: "has_value ?opts ''repo'' = has_value given ''repo''"
    "has_value ?opts ''org'' = has_value given ''org''"
    "has_value ?opts ''product'' = has_value given ''product''"
    by (simp_all add: has_value_def parse_List)
  show ?thesis
    by (auto simp: List_run_resolve [OF falsy] env others spec_List_columns_def invoke_eq
          accepts_List hv split: sum.splits option.splits)
qed

theorem List_default_environment_witness:
  "[''repo'' \<mapsto> ''fedora'', ''org'' \<mapsto> ''ACME'', ''product'' \<mapsto> ''OS''] ''repo_id'' = None
   \<and> [''repo'' \<mapsto> ''fedora'', ''org'' \<mapsto> ''ACME'', ''product'' \<mapsto> ''OS''] ''environment'' = None
   \<and> filter is_api_call (fst (invoke List sample_server
        [''repo'' \<mapsto> ''fedora'', ''org'' \<mapsto> ''ACME'', ''product'' \<mapsto> ''OS'']))
       = [CallGetRepo (PStr ''ACME'') (PStr ''OS'') (PStr ''fedora'') (PStr ''Library''),
          CallDistributionsByRepo (PInt 7)]
   \<and> headers_of (fst (invoke List sample_server
        [''repo'' \<mapsto> ''fedora'', ''org'' \<mapsto> ''ACME'', ''product'' \<mapsto> ''OS'']))
       = [''Distribution List For Repo 7'']"
proof -
  let ?g = "[''repo'' \<mapsto> ''fedora'', ''org'' \<mapsto> ''ACME'', ''product'' \<mapsto> ''OS'']"
  have h1: "?g ''repo_id'' = None" by simp
  have h2: "?g ''environment'' = None" by simp
  have h3: "get_repo sample_server (get_option ?g ''org'') (get_option ?g ''product'')
              (get_option ?g ''repo'') (PStr ''Library'')
            = Inr [(''id'', PInt 7), (''name'', PStr ''fedora'')]
            \<and> map_of [(''id'', PInt 7), (''name'', PStr ''fedora'')] ''id'' = Some (PInt 7)"
    by (simp add: sample_server_def get_option_def)
  have h4: "has_value ?g ''repo'' \<and> has_value ?g ''org'' \<and> has_value ?g ''product''"
    by (simp add: has_value_def)
  from List_default_environment
         [of ?g sample_server "[(''id'', PInt 7), (''name'', PStr ''fedora'')]" "PInt 7",
          OF h1 h2] h3 h4
  have "filter is_api_call (fst (invoke List sample_server ?g))
          = [CallGetRepo (get_option ?g ''org'') (get_option ?g ''product'')
               (get_option ?g ''repo'') (PStr ''Library''),
             CallDistributionsByRepo (PInt 7)]
        \<and> headers_of (fst (invoke List sample_server ?g)) = [spec_List_header (PInt 7)]"
    by simp
  then show ?thesis
    using h1 h2 by (simp add: get_option_def spec_List_header_def py_str_7 del: py_str.simps)
qed

subsection \<open>An empty repository identifier\<close>

text \<open>
  C10. \<^verbatim>\<open>List.run\<close> calls \<^verbatim>\<open>get_repo\<close> exactly when the value of
  \<^verbatim>\<open>repo_id\<close> is falsy, that is absent or the empty string. An empty
  \<^verbatim>\<open>repo_id\<close> exists for \<^verbatim>\<open>check_options\<close>, which then requires nothing of
  \<^verbatim>\<open>repo\<close>, \<^verbatim>\<open>org\<close> and \<^verbatim>\<open>product\<close> and accepts; \<^verbatim>\<open>run\<close> still
  resolves by name, with whatever values those options and \<^verbatim>\<open>environment\<close> have.
\<close>

theorem get_repo_iff_falsy:
  "(filter is_get_repo (fst (List_run c opts)) \<noteq> [] \<longleftrightarrow> \<not> truthy (get_option opts ''repo_id''))
   \<and> (\<not> truthy (get_option opts ''repo_id'') \<longleftrightarrow>
        opts ''repo_id'' = None \<or> opts ''repo_id'' = Some [])
   \<and> (opts ''repo_id'' = Some [] \<longrightarrow>
        exists (new_validator opts) ''repo_id''
        \<and> check_options List (new_validator opts) = new_validator opts
        \<and> accepts List opts
        \<and> filter is_get_repo (fst (List_run c opts))
            = [CallGetRepo (get_option opts ''org'') (get_option opts ''product'')
                 (get_option opts ''repo'') (get_option opts ''environment'')])"
proof (intro conjI impI)
  show "filter is_get_repo (fst (List_run c opts)) \<noteq> [] \<longleftrightarrow> \<not> truthy (get_option opts ''repo_id'')"
  proof (cases "truthy (get_option opts ''repo_id'')")
    case True
    then show ?thesis
      by (simp add: List_run_direct spec_List_columns_def split: sum.split)
  next
    case False
    then show ?thesis
      by (simp add: List_run_resolve spec_List_columns_def split: sum.split option.split)
  qed
  show "\<not> truthy (get_option opts ''repo_id'') \<longleftrightarrow>
        opts ''repo_id'' = None \<or> opts ''repo_id'' = Some []"
    by (simp add: get_option_def split: option.split)
next
  assume e: "opts ''repo_id'' = Some []"
  then show "exists (new_validator opts) ''repo_id''"
    by (simp add: exists_def new_validator_def)
  from e show "check_options List (new_validator opts) = new_validator opts"
    by (simp add: List_check_options_def exists_def new_validator_def)
  from e show "accepts List opts"
    by (simp add: accepts_List)
  from e have "\<not> truthy (get_option opts ''repo_id'')"
    by (simp add: get_option_def)
  then show "filter is_get_repo (fst (List_run c opts))
            = [CallGetRepo (get_option opts ''org'') (get_option opts ''product'')
                 (get_option opts ''repo'') (get_option opts ''environment'')]"
    by (simp add: List_run_resolve spec_List_columns_def split: sum.split option.split)
qed

theorem get_repo_iff_falsy_witness:
  "parse (setup_parser List) [''repo_id'' \<mapsto> []] ''repo_id'' = Some []
   \<and> accepts List (parse (setup_parser List) [''repo_id'' \<mapsto> []])
   \<and> filter is_get_repo
       (fst (List_run sample_server (parse (setup_parser List) [''repo_id'' \<mapsto> []])))
     = [CallGetRepo PNone PNone PNone (PStr ''Library'')]"
proof -
  let ?o = "parse (setup_parser List) [''repo_id'' \<mapsto> []]"
  have h: "?o ''repo_id'' = Some []"
    by (simp add: parse_List)
  from h get_repo_iff_falsy [of sample_server ?o]
  have "accepts List ?o
        \<and> filter is_get_repo (fst (List_run sample_server ?o))
            = [CallGetRepo (get_option ?o ''org'') (get_option ?o ''product'')
                 (get_option ?o ''repo'') (get_option ?o ''environment'')]"
    by blast
  with h show ?thesis
    by (simp add: get_option_def parse_List)
qed

subsection \<open>The order of the steps\<close>

text \<open>
  C5, as amended. A successful \<^verbatim>\<open>Info.run\<close> is, in this order: the call of
  \<^verbatim>\<open>distribution\<close>, the six columns, the header, \<^verbatim>\<open>print_item\<close> with the
  record returned, and the status \<^verbatim>\<open>EX_OK\<close>. A successful \<^verbatim>\<open>List.run\<close> is, in
  this order: the three columns, the call of \<^verbatim>\<open>get_repo\<close> when \<^verbatim>\<open>repo_id\<close> is
  falsy, the header, the call of \<^verbatim>\<open>distributions_by_repo\<close>, \<^verbatim>\<open>print_items\<close>
  with the records returned, and the status \<^verbatim>\<open>EX_OK\<close>. In both, the records reach
  the printer last, after the call returned and after every column was declared.
\<close>

theorem run_order:
  "(succeeded (Info_run c opts) \<longrightarrow>
      (\<exists>data. distribution c (get_option opts ''repo_id'') (get_option opts ''id'') = Inr data
         \<and> Info_run c opts =
             ([CallDistribution (get_option opts ''repo_id'') (get_option opts ''id'')]
                @ map AddColumn spec_Info_columns
                @ [SetHeader ''Distribution Information'']
                @ [PrintItem data], Inr EX_OK)))
   \<and> (succeeded (List_run c opts) \<longrightarrow>
      (\<exists>rid ds. distributions_by_repo c rid = Inr ds
         \<and> List_run c opts =
             (map AddColumn spec_List_columns
                @ (if truthy (get_option opts ''repo_id'') then []
                   else [CallGetRepo (get_option opts ''org'') (get_option opts ''product'')
                           (get_option opts ''repo'') (get_option opts ''environment'')])
                @ [SetHeader (spec_List_header rid)]
                @ [CallDistributionsByRepo rid]
                @ [PrintItems ds], Inr EX_OK)))"
proof (intro conjI impI)
  assume "succeeded (Info_run c opts)"
  then show "\<exists>data. distribution c (get_option opts ''repo_id'') (get_option opts ''id'') = Inr data
         \<and> Info_run c opts =
             ([CallDistribution (get_option opts ''repo_id'') (get_option opts ''id'')]
                @ map AddColumn spec_Info_columns
                @ [SetHeader ''Distribution Information'']
                @ [PrintItem data], Inr EX_OK)"
    by (auto simp: succeeded_def Info_run_eq split: sum.splits)
next
  assume ok: "succeeded (List_run c opts)"
  show "\<exists>rid ds. distributions_by_repo c rid = Inr ds
         \<and> List_run c opts =
             (map AddColumn spec_List_columns
                @ (if truthy (get_option opts ''repo_id'') then []
                   else [CallGetRepo (get_option opts ''org'') (get_option opts ''product'')
                           (get_option opts ''repo'') (get_option opts ''environment'')])
                @ [SetHeader (spec_List_header rid)]
                @ [CallDistributionsByRepo rid]
                @ [PrintItems ds], Inr EX_OK)"
  proof (cases "truthy (get_option opts ''repo_id'')")
    case True
    with ok show ?thesis
      by (auto simp: succeeded_def List_run_direct split: sum.splits)
  next
    case False
    with ok show ?thesis
      by (auto simp: succeeded_def List_run_resolve split: sum.splits option.splits)
  qed
qed

theorem run_order_witness:
  "succeeded (Info_run sample_server [''repo_id'' \<mapsto> ''7'', ''id'' \<mapsto> ''ks1''])
   \<and> succeeded (List_run sample_server [''repo'' \<mapsto> ''fedora''])
   \<and> (\<exists>data. Info_run sample_server [''repo_id'' \<mapsto> ''7'', ''id'' \<mapsto> ''ks1''] =
         ([CallDistribution (PStr ''7'') (PStr ''ks1'')]
            @ map AddColumn spec_Info_columns
            @ [SetHeader ''Distribution Information'']
            @ [PrintItem data], Inr EX_OK))
   \<and> (\<exists>rid ds. List_run sample_server [''repo'' \<mapsto> ''fedora''] =
         (map AddColumn spec_List_columns
            @ [CallGetRepo PNone PNone (PStr ''fedora'') PNone]
            @ [SetHeader (spec_List_header rid)]
            @ [CallDistributionsByRepo rid]
            @ [PrintItems ds], Inr EX_OK))"
proof -
  have h1: "succeeded (Info_run sample_server [''repo_id'' \<mapsto> ''7'', ''id'' \<mapsto> ''ks1''])"
    by (simp add: succeeded_def Info_run_eq sample_server_def)
  have h2: "succeeded (List_run sample_server [''repo'' \<mapsto> ''fedora''])"
    by (simp add: succeeded_def List_run_resolve get_option_def sample_server_def)
  from h1 run_order [of sample_server "[''repo_id'' \<mapsto> ''7'', ''id'' \<mapsto> ''ks1'']"]
  have a: "\<exists>data. Info_run sample_server [''repo_id'' \<mapsto> ''7'', ''id'' \<mapsto> ''ks1''] =
         ([CallDistribution (PStr ''7'') (PStr ''ks1'')]
            @ map AddColumn spec_Info_columns
            @ [SetHeader ''Distribution Information'']
            @ [PrintItem data], Inr EX_OK)"
    by (auto simp: get_option_def)
  from h2 run_order [of sample_server "[''repo'' \<mapsto> ''fedora'']"]
  have b: "\<exists>rid ds. List_run sample_server [''repo'' \<mapsto> ''fedora''] =
         (map AddColumn spec_List_columns
            @ [CallGetRepo PNone PNone (PStr ''fedora'') PNone]
            @ [SetHeader (spec_List_header rid)]
            @ [CallDistributionsByRepo rid]
            @ [PrintItems ds], Inr EX_OK)"
    by (auto simp: get_option_def)
  from h1 h2 a b show ?thesis by blast
qed

text \<open>
  The claim C5 as first stated has no column added before the external call returns.
  \<^verbatim>\<open>List.run\<close> declares its three columns and sets the header before it calls
  \<^verbatim>\<open>distributions_by_repo\<close>: the whole run for \<^verbatim>\<open>--repo_id 42\<close>.
\<close>

theorem List_run_columns_before_call:
  "List_run sample_server [''repo_id'' \<mapsto> ''42''] =
     ([AddColumn (plain_column ''id''),
       AddColumn (plain_column ''description''),
       AddColumn \<lparr>col_key = ''files'', multiline = True, show_with = Some VerboseStrategy\<rparr>,
       SetHeader ''Distribution List For Repo 42'',
       CallDistributionsByRepo (PStr ''42''),
       PrintItems [[(''id'', Single (PStr ''ks1'')), (''description'', Single (PStr ''d1'')),
                    (''files'', Lines [''f1''])]]],
      Inr 0)"
  by (simp add: List_run_direct get_option_def sample_server_def spec_List_columns_def
        spec_List_header_def EX_OK_def)

subsection \<open>The printer\<close>

text \<open>
  C7. A successful \<^verbatim>\<open>List.run\<close> declares exactly the columns \<^verbatim>\<open>id\<close>,
  \<^verbatim>\<open>description\<close> and \<^verbatim>\<open>files\<close> (multiline, verbose only), in that order,
  and sets the one header \<^verbatim>\<open>Distribution List For Repo\<close> followed by the
  repository identifier: the value of \<^verbatim>\<open>repo_id\<close> when it is truthy, the
  \<^verbatim>\<open>id\<close> field of the record \<^verbatim>\<open>get_repo\<close> returned otherwise, and in both
  cases the argument of \<^verbatim>\<open>distributions_by_repo\<close>. A successful \<^verbatim>\<open>Info.run\<close>
  declares exactly \<^verbatim>\<open>id\<close>, \<^verbatim>\<open>description\<close>, \<^verbatim>\<open>family\<close>,
  \<^verbatim>\<open>variant\<close>, \<^verbatim>\<open>version\<close> and \<^verbatim>\<open>files\<close> (multiline, verbose only), in
  that order, and sets the one header \<^verbatim>\<open>Distribution Information\<close>.
\<close>

theorem printer_configuration:
  "(succeeded (List_run c opts) \<longrightarrow>
      columns_of (fst (List_run c opts)) = spec_List_columns
      \<and> (\<exists>rid ds. headers_of (fst (List_run c opts)) = [spec_List_header rid]
            \<and> filter is_print (fst (List_run c opts)) = [PrintItems ds]
            \<and> CallDistributionsByRepo rid \<in> set (fst (List_run c opts))
            \<and> distributions_by_repo c rid = Inr ds
            \<and> (if truthy (get_option opts ''repo_id'') then rid = get_option opts ''repo_id''
               else \<exists>repo. get_repo c (get_option opts ''org'') (get_option opts ''product'')
                              (get_option opts ''repo'') (get_option opts ''environment'')
                            = Inr repo
                          \<and> map_of repo ''id'' = Some rid)))
   \<and> (succeeded (Info_run c opts) \<longrightarrow>
      columns_of (fst (Info_run c opts)) = spec_Info_columns
      \<and> headers_of (fst (Info_run c opts)) = [''Distribution Information''])"
proof (intro conjI impI)
  assume ok: "succeeded (List_run c opts)"
  show "columns_of (fst (List_run c opts)) = spec_List_columns"
  proof (cases "truthy (get_option opts ''repo_id'')")
    case True
    then show ?thesis
      by (simp add: List_run_direct spec_List_columns_def split: sum.split)
  next
    case False
    then show ?thesis
      by (simp add: List_run_resolve spec_List_columns_def split: sum.split option.split)
  qed
  show "\<exists>rid ds. headers_of (fst (List_run c opts)) = [spec_List_header rid]
            \<and> filter is_print (fst (List_run c opts)) = [PrintItems ds]
            \<and> CallDistributionsByRepo rid \<in> set (fst (List_run c opts))
            \<and> distributions_by_repo c rid = Inr ds
            \<and> (if truthy (get_option opts ''repo_id'') then rid = get_option opts ''repo_id''
               else \<exists>repo. get_repo c (get_option opts ''org'') (get_option opts ''product'')
                              (get_option opts ''repo'') (get_option opts ''environment'')
                            = Inr repo
                          \<and> map_of repo ''id'' = Some rid)"
  proof (cases "truthy (get_option opts ''repo_id'')")
    case True
    with ok show ?thesis
      by (auto simp: succeeded_def List_run_direct spec_List_columns_def split: sum.splits)
  next
    case False
    with ok show ?thesis
      by (auto simp: succeeded_def List_run_resolve spec_List_columns_def
          split: sum.splits option.splits)
  qed
next
  assume "succeeded (Info_run c opts)"
  then show "columns_of (fst (Info_run c opts)) = spec_Info_columns"
    by (auto simp: succeeded_def Info_run_eq spec_Info_columns_def split: sum.splits)
next
  assume "succeeded (Info_run c opts)"
  then show "headers_of (fst (Info_run c opts)) = [''Distribution Information'']"
    by (auto simp: succeeded_def Info_run_eq spec_Info_columns_def split: sum.splits)
qed

theorem printer_configuration_witness:
  "succeeded (List_run sample_server [''repo_id'' \<mapsto> ''7''])
   \<and> succeeded (Info_run sample_server [''repo_id'' \<mapsto> ''7'', ''id'' \<mapsto> ''ks1''])
   \<and> columns_of (fst (List_run sample_server [''repo_id'' \<mapsto> ''7'']))
       = [\<lparr>col_key = ''id'', multiline = False, show_with = None\<rparr>,
          \<lparr>col_key = ''description'', multiline = False, show_with = None\<rparr>,
          \<lparr>col_key = ''files'', multiline = True, show_with = Some VerboseStrategy\<rparr>]
   \<and> headers_of (fst (List_run sample_server [''repo_id'' \<mapsto> ''7'']))
       = [''Distribution List For Repo 7'']
   \<and> columns_of (fst (Info_run sample_server [''repo_id'' \<mapsto> ''7'', ''id'' \<mapsto> ''ks1'']))
       = [\<lparr>col_key = ''id'', multiline = False, show_with = None\<rparr>,
          \<lparr>col_key = ''description'', multiline = False, show_with = None\<rparr>,
          \<lparr>col_key = ''family'', multiline = False, show_with = None\<rparr>,
          \<lparr>col_key = ''variant'', multiline = False, show_with = None\<rparr>,
          \<lparr>col_key = ''version'', multiline = False, show_with = None\<rparr>,
          \<lparr>col_key = ''files'', multiline = True, show_with = Some VerboseStrategy\<rparr>]
   \<and> headers_of (fst (Info_run sample_server [''repo_id'' \<mapsto> ''7'', ''id'' \<mapsto> ''ks1'']))
       = [''Distribution Information'']"
proof -
  have h1: "succeeded (List_run sample_server [''repo_id'' \<mapsto> ''7''])"
    by (simp add: succeeded_def List_run_direct get_option_def sample_server_def)
  have h2: "succeeded (Info_run sample_server [''repo_id'' \<mapsto> ''7'', ''id'' \<mapsto> ''ks1''])"
    by (simp add: succeeded_def Info_run_eq sample_server_def)
  from h1 printer_configuration [of sample_server "[''repo_id'' \<mapsto> ''7'']"]
  have a: "columns_of (fst (List_run sample_server [''repo_id'' \<mapsto> ''7''])) = spec_List_columns
     \<and> headers_of (fst (List_run sample_server [''repo_id'' \<mapsto> ''7'']))
         = [spec_List_header (PStr ''7'')]"
    by (auto simp: get_option_def)
  from h2 printer_configuration
            [of sample_server "[''repo_id'' \<mapsto> ''7'', ''id'' \<mapsto> ''ks1'']"]
  have b: "columns_of (fst (Info_run sample_server [''repo_id'' \<mapsto> ''7'', ''id'' \<mapsto> ''ks1'']))
         = spec_Info_columns
     \<and> headers_of (fst (Info_run sample_server [''repo_id'' \<mapsto> ''7'', ''id'' \<mapsto> ''ks1'']))
         = [''Distribution Information'']"
    by blast
  from h1 h2 a b show ?thesis
    by (simp add: spec_List_columns_def spec_Info_columns_def spec_List_header_def
          plain_column_def)
qed

subsection \<open>Failures and the exit status\<close>

text \<open>
  C8. An exception of a collaborator leaves \<^verbatim>\<open>run\<close> as it was raised, the call is
  made once, and nothing is printed: when \<^verbatim>\<open>get_repo\<close> raises, it is the only call
  of \<^verbatim>\<open>List.run\<close>; when \<^verbatim>\<open>distributions_by_repo\<close> raises, it was called
  once; when \<^verbatim>\<open>distribution\<close> raises, that call is all \<^verbatim>\<open>Info.run\<close> did.
\<close>

theorem errors_propagate:
  "(\<not> truthy (get_option opts ''repo_id'')
      \<and> get_repo c (get_option opts ''org'') (get_option opts ''product'')
            (get_option opts ''repo'') (get_option opts ''environment'') = Inl e \<longrightarrow>
        snd (List_run c opts) = Inl e
        \<and> filter is_print (fst (List_run c opts)) = []
        \<and> filter is_api_call (fst (List_run c opts))
            = [CallGetRepo (get_option opts ''org'') (get_option opts ''product'')
                 (get_option opts ''repo'') (get_option opts ''environment'')])
   \<and> (CallDistributionsByRepo rid \<in> set (fst (List_run c opts))
      \<and> distributions_by_repo c rid = Inl e \<longrightarrow>
        snd (List_run c opts) = Inl e
        \<and> filter is_print (fst (List_run c opts)) = []
        \<and> filter is_dist_call (fst (List_run c opts)) = [CallDistributionsByRepo rid])
   \<and> (distribution c (get_option opts ''repo_id'') (get_option opts ''id'') = Inl e \<longrightarrow>
        Info_run c opts
          = ([CallDistribution (get_option opts ''repo_id'') (get_option opts ''id'')], Inl e))"
proof (intro conjI impI)
  assume a: "\<not> truthy (get_option opts ''repo_id'')
      \<and> get_repo c (get_option opts ''org'') (get_option opts ''product'')
            (get_option opts ''repo'') (get_option opts ''environment'') = Inl e"
  then have run: "List_run c opts =
      (map AddColumn spec_List_columns @
         [CallGetRepo (get_option opts ''org'') (get_option opts ''product'')
            (get_option opts ''repo'') (get_option opts ''environment'')], Inl e)"
    by (simp add: List_run_resolve)
  show "snd (List_run c opts) = Inl e"
    by (simp add: run)
  show "filter is_print (fst (List_run c opts)) = []"
    by (simp add: run spec_List_columns_def)
  show "filter is_api_call (fst (List_run c opts))
            = [CallGetRepo (get_option opts ''org'') (get_option opts ''product'')
                 (get_option opts ''repo'') (get_option opts ''environment'')]"
    by (simp add: run spec_List_columns_def)
next
  assume b: "CallDistributionsByRepo rid \<in> set (fst (List_run c opts))
      \<and> distributions_by_repo c rid = Inl e"
  have "snd (List_run c opts) = Inl e
        \<and> filter is_print (fst (List_run c opts)) = []
        \<and> filter is_dist_call (fst (List_run c opts)) = [CallDistributionsByRepo rid]"
  proof (cases "truthy (get_option opts ''repo_id'')")
    case True
    with b show ?thesis
      by (auto simp: List_run_direct spec_List_columns_def split: sum.splits)
  next
    case False
    with b show ?thesis
      by (auto simp: List_run_resolve spec_List_columns_def split: sum.splits option.splits)
  qed
  then show "snd (List_run c opts) = Inl e"
    and "filter is_print (fst (List_run c opts)) = []"
    and "filter is_dist_call (fst (List_run c opts)) = [CallDistributionsByRepo rid]"
    by simp_all
next
  assume "distribution c (get_option opts ''repo_id'') (get_option opts ''id'') = Inl e"
  then show "Info_run c opts
          = ([CallDistribution (get_option opts ''repo_id'') (get_option opts ''id'')], Inl e)"
    by (simp add: Info_run_eq)
qed

theorem errors_propagate_witness:
  "\<not> truthy (get_option [''repo'' \<mapsto> ''fedora''] ''repo_id'')
   \<and> snd (List_run failing_server [''repo'' \<mapsto> ''fedora'']) = Inl NotFound
   \<and> filter is_print (fst (List_run failing_server [''repo'' \<mapsto> ''fedora''])) = []
   \<and> CallDistributionsByRepo (PStr ''42'')
        \<in> set (fst (List_run failing_server [''repo_id'' \<mapsto> ''42'']))
   \<and> snd (List_run failing_server [''repo_id'' \<mapsto> ''42'']) = Inl (ServerError ''503'')
   \<and> filter is_print (fst (List_run failing_server [''repo_id'' \<mapsto> ''42''])) = []
   \<and> filter is_dist_call (fst (List_run failing_server [''repo_id'' \<mapsto> ''42'']))
        = [CallDistributionsByRepo (PStr ''42'')]
   \<and> Info_run failing_server [''repo_id'' \<mapsto> ''7'', ''id'' \<mapsto> ''ks1'']
        = ([CallDistribution (PStr ''7'') (PStr ''ks1'')], Inl NotFound)"
proof -
  let ?o1 = "[''repo'' \<mapsto> ''fedora'']"
  let ?o2 = "[''repo_id'' \<mapsto> ''42'']"
  let ?o3 = "[''repo_id'' \<mapsto> ''7'', ''id'' \<mapsto> ''ks1'']"
  have h1: "\<not> truthy (get_option ?o1 ''repo_id'')
      \<and> get_repo failing_server (get_option ?o1 ''org'') (get_option ?o1 ''product'')
            (get_option ?o1 ''repo'') (get_option ?o1 ''environment'') = Inl NotFound"
    by (simp add: get_option_def failing_server_def)
  have h2: "CallDistributionsByRepo (PStr ''42'') \<in> set (fst (List_run failing_server ?o2))
      \<and> distributions_by_repo failing_server (PStr ''42'') = Inl (ServerError ''503'')"
    by (simp add: List_run_direct get_option_def failing_server_def)
  have h3: "distribution failing_server (get_option ?o3 ''repo_id'') (get_option ?o3 ''id'')
      = Inl NotFound"
    by (simp add: failing_server_def)
  from h1 errors_propagate [of ?o1 failing_server NotFound]
  have a: "snd (List_run failing_server ?o1) = Inl NotFound
      \<and> filter is_print (fst (List_run failing_server ?o1)) = []"
    by blast
  from h2 errors_propagate [of ?o2 failing_server "ServerError ''503''" "PStr ''42''"]
  have b: "snd (List_run failing_server ?o2) = Inl (ServerError ''503'')
      \<and> filter is_print (fst (List_run failing_server ?o2)) = []
      \<and> filter is_dist_call (fst (List_run failing_server ?o2))
          = [CallDistributionsByRepo (PStr ''42'')]"
    by blast
  from h3 errors_propagate [of ?o3 failing_server NotFound]
  have c: "Info_run failing_server ?o3
      = ([CallDistribution (get_option ?o3 ''repo_id'') (get_option ?o3 ''id'')], Inl NotFound)"
    by blast
  from h1 h2 a b c show ?thesis
    by (simp add: get_option_def)
qed

text \<open>
  C9. Whenever \<^verbatim>\<open>List.run\<close> or \<^verbatim>\<open>Info.run\<close> returns, without an exception,
  the value returned is \<^verbatim>\<open>os.EX_OK\<close>, which is 0.
\<close>

theorem run_returns_EX_OK:
  "snd (run a c opts) = Inr n \<Longrightarrow> n = EX_OK \<and> EX_OK = 0"
proof (cases a)
  case List
  assume r: "snd (run a c opts) = Inr n"
  show ?thesis
  proof (cases "truthy (get_option opts ''repo_id'')")
    case True
    with r List show ?thesis
      by (auto simp: List_run_direct EX_OK_def split: sum.splits)
  next
    case False
    with r List show ?thesis
      by (auto simp: List_run_resolve EX_OK_def split: sum.splits option.splits)
  qed
next
  case Info
  assume r: "snd (run a c opts) = Inr n"
  with Info show ?thesis
    by (auto simp: Info_run_eq EX_OK_def split: sum.splits)
qed

theorem run_returns_EX_OK_witness:
  "snd (run List sample_server [''repo_id'' \<mapsto> ''42'']) = Inr 0
   \<and> snd (run Info sample_server [''repo_id'' \<mapsto> ''7'', ''id'' \<mapsto> ''ks1'']) = Inr 0"
proof -
  have h1: "snd (run List sample_server [''repo_id'' \<mapsto> ''42'']) = Inr EX_OK"
    by (simp add: List_run_direct get_option_def sample_server_def)
  have h2: "snd (run Info sample_server [''repo_id'' \<mapsto> ''7'', ''id'' \<mapsto> ''ks1'']) = Inr EX_OK"
    by (simp add: Info_run_eq sample_server_def)
  from run_returns_EX_OK [OF h1] run_returns_EX_OK [OF h2] h1 h2 show ?thesis
    by simp
qed

end
